theory Spec2Isabelle
  imports Main
begin

section \<open>Python strings\<close>

text \<open>
  A Python \<open>str\<close> is a sequence of code points. It is modelled as a HOL \<open>string\<close> in which
  each \<open>char\<close> stands for the code point of the same number, so the model covers text in the
  range U+0000 .. U+00FF. The character classes below are Python's on that range.
\<close>

definition cp :: "char \<Rightarrow> nat" where
  "cp c = of_char c"

text \<open>\<open>c.isspace()\<close>: TAB .. CR, FS .. US, space, NEL and the no-break space.\<close>

definition isspace_char :: "char \<Rightarrow> bool" where
  "isspace_char c = ((9 \<le> cp c \<and> cp c \<le> 13) \<or> (28 \<le> cp c \<and> cp c \<le> 32) \<or> cp c = 133 \<or> cp c = 160)"

text \<open>The ten characters \<open>0\<close> .. \<open>9\<close>.\<close>

definition decimal_char :: "char \<Rightarrow> bool" where
  "decimal_char c = (48 \<le> cp c \<and> cp c \<le> 57)"

text \<open>\<open>c.isdigit()\<close>: the decimal digits and the superscripts two, three and one
  (U+00B2, U+00B3, U+00B9).\<close>

definition isdigit_char :: "char \<Rightarrow> bool" where
  "isdigit_char c = (decimal_char c \<or> cp c = 178 \<or> cp c = 179 \<or> cp c = 185)"

text \<open>\<open>s.isdigit()\<close>: false on the empty string.\<close>

definition isdigit :: "string \<Rightarrow> bool" where
  "isdigit s = (s \<noteq> [] \<and> list_all isdigit_char s)"

text \<open>\<open>s.strip()\<close>: leading and trailing whitespace removed.\<close>

definition strip :: "string \<Rightarrow> string" where
  "strip s = rev (dropWhile isspace_char (rev (dropWhile isspace_char s)))"

text \<open>\<open>c.lower()\<close>: A .. Z and U+00C0 .. U+00DE (without the multiplication sign) move up
  by 32.\<close>

definition lower_char :: "char \<Rightarrow> char" where
  "lower_char c =
     (if (65 \<le> cp c \<and> cp c \<le> 90) \<or> (192 \<le> cp c \<and> cp c \<le> 222 \<and> cp c \<noteq> 215)
      then char_of (cp c + 32) else c)"

definition lower :: "string \<Rightarrow> string" where
  "lower s = map lower_char s"

text \<open>\<open>c.upper()\<close>: a .. z and U+00E0 .. U+00FE (without the division sign) move down by 32,
  the sharp s becomes \<open>SS\<close>. The micro sign and the y with diaeresis have their upper case
  outside the range of the model and are kept as they are; like their upper case they are
  neither digits nor whitespace.\<close>

definition upper_char :: "char \<Rightarrow> string" where
  "upper_char c =
     (if (97 \<le> cp c \<and> cp c \<le> 122) \<or> (224 \<le> cp c \<and> cp c \<le> 254 \<and> cp c \<noteq> 247)
      then [char_of (cp c - 32)]
      else if cp c = 223 then ''SS'' else [c])"

definition upper :: "string \<Rightarrow> string" where
  "upper s = concat (map upper_char s)"

text \<open>\<open>sys.int_max_str_digits\<close>, at its default: the largest number of digits that \<open>int\<close>
  reads from a string and that \<open>str\<close> writes for an integer (CPython 3.11).\<close>

definition int_max_str_digits :: nat where
  "int_max_str_digits = 4300"

text \<open>\<open>int(s)\<close> for a string that passed \<open>isdigit\<close>: the number written by decimal digits.
  \<open>ValueError\<close> (here \<open>None\<close>) when a superscript digit occurs, and when the string has
  more digits than \<open>int_max_str_digits\<close>; leading zeros count.\<close>

definition int_of_str :: "string \<Rightarrow> nat option" where
  "int_of_str s =
     (if s \<noteq> [] \<and> list_all decimal_char s \<and> length s \<le> int_max_str_digits
      then Some (foldl (\<lambda>n c. 10 * n + (cp c - 48)) 0 s) else None)"

text \<open>\<open>str(n)\<close> for a non-negative integer.\<close>

fun str_nat :: "nat \<Rightarrow> string" where
  "str_nat n = (if n < 10 then [char_of (48 + n)] else str_nat (n div 10) @ [char_of (48 + n mod 10)])"

declare str_nat.simps [simp del]


text \<open>\<open>s.endswith(t)\<close>.\<close>

definition endswith :: "string \<Rightarrow> string \<Rightarrow> bool" where
  "endswith s t = (length t \<le> length s \<and> drop (length s - length t) s = t)"

section \<open>The database\<close>

text \<open>
  The four tables the handlers read and write, each a list of rows in storage order.
  \<open>datetime.utcnow()\<close> is read from a clock the handler is given: the k-th reading of a
  request is \<open>reloj k\<close>. Every statement sent to the database is taken to be executed: a
  failure of the storage engine is outside the model.
\<close>

type_synonym fecha = nat
type_synonym bytes = "nat list"

record usuario_row =
  id_usuario :: nat
  usuario :: string
  contrasena :: string

record sala_row =
  id_sala :: nat
  codigo :: string
  nombre_sala :: string
  id_creador :: nat
  fecha_creacion :: fecha

record miembro_row =
  id_miembro :: nat
  miembro_id_sala :: nat
  miembro_id_usuario :: nat
  fecha_union :: fecha

record mensaje_row =
  id_mensaje :: nat
  mensaje_id_sala :: nat
  id_emisor :: "nat option"
  contenido :: string
  fecha_envio :: fecha
  es_sistema :: bool
  tipo_archivo :: "string option"
  archivo_datos :: "bytes option"

text \<open>
  Modelled from the spec: the table declarations are not part of the sources. Message ids
  are ``monotonically increasing'' and ``generated by storage'': each table has a counter
  that gives the next row its id and then grows. Deleting a room ``cascades to all
  Memberships and Messages of that room (enforced by the storage layer's referential
  cascade)''.
\<close>

record db =
  Usuarios :: "usuario_row list"
  Salas :: "sala_row list"
  Miembros_Sala :: "miembro_row list"
  Mensajes_Sala :: "mensaje_row list"
  auto_miembro :: nat
  auto_mensaje :: nat

text \<open>\<open>consultar_db(query, args, one=True)\<close>: the first row of the result, or \<open>None\<close>.\<close>

definition consultar_one :: "('a \<Rightarrow> bool) \<Rightarrow> 'a list \<Rightarrow> 'a option" where
  "consultar_one cond filas = (case filter cond filas of [] \<Rightarrow> None | f # _ \<Rightarrow> Some f)"

section \<open>Room codes\<close>

definition CODIGO_ALFABETO :: string where
  "CODIGO_ALFABETO = ''0123456789''"

text \<open>\<open>secrets.choice(seq)\<close> is \<open>seq[randbelow(len(seq))]\<close>; the random number below
  \<open>len(seq)\<close> is the residue of a draw \<open>r\<close> from the random source.\<close>

definition secrets_choice :: "'a list \<Rightarrow> nat \<Rightarrow> 'a" where
  "secrets_choice seq r = seq ! (r mod length seq)"

text \<open>The six draws that start at position \<open>i\<close> of the random source \<open>azar\<close>, joined.\<close>

definition seis_digitos :: "(nat \<Rightarrow> nat) \<Rightarrow> nat \<Rightarrow> string" where
  "seis_digitos azar i = map (\<lambda>k. secrets_choice CODIGO_ALFABETO (azar (i + k))) [0..<6]"

text \<open>\<open>generar_codigo_sala\<close>: the loop has no bound; a run that never finds an unused code
  is the value \<open>None\<close>.\<close>

partial_function (option) generar_codigo_sala :: "db \<Rightarrow> (nat \<Rightarrow> nat) \<Rightarrow> nat \<Rightarrow> string option" where
  "generar_codigo_sala d azar i =
     (if consultar_one (\<lambda>s. codigo s = seis_digitos azar i) (Salas d) = None
      then Some (seis_digitos azar i)
      else generar_codigo_sala d azar (i + 6))"

text \<open>A code is in use when some room carries it.\<close>

definition en_uso :: "db \<Rightarrow> string \<Rightarrow> bool" where
  "en_uso d c = (c \<in> codigo ` set (Salas d))"


section \<open>Server state, sessions and results\<close>

text \<open>
  The state of the server is the database and the Socket.IO rooms: the pairs of a
  connection id and the name of a room that connection has joined.
\<close>

record estado =
  base :: db
  suscripciones :: "(nat \<times> string) list"

text \<open>The Flask session: \<open>session["user_id"]\<close> and \<open>session["username"]\<close>, each present
  or not.\<close>

record sesion =
  user_id :: "nat option"
  username :: "string option"

text \<open>A payload value; \<open>VFecha f\<close> is the text \<open>f.isoformat() + "Z"\<close>.\<close>

datatype valor = VInt nat | VStr string | VFecha fecha

text \<open>An emitted Socket.IO event: its name, its payload and the room it is sent to.\<close>

record evento =
  nombre :: string
  datos :: "(string \<times> valor) list"
  destino :: string

text \<open>One entry of the history that \<open>api_messages\<close> returns.\<close>

record fila_historial =
  h_id_mensaje :: nat
  h_contenido :: string
  h_fecha_envio :: fecha
  h_es_sistema :: bool
  h_tipo_archivo :: "string option"
  h_sender :: "string option"

datatype excepcion = KeyError | ValueError | TypeError | AttributeError

text \<open>
  What a handler returns: a redirect to a named view, a JSON list of history entries, the
  JSON object \<open>{"error": msg}\<close> with a status, the JSON object of a successful upload, a
  plain text with a status, a file with its MIME type, nothing (a Socket.IO handler), or an
  exception that no handler catches.
\<close>

datatype respuesta =
    Redirect string
  | JsonLista "fila_historial list"
  | JsonError string nat
  | JsonExito nat
  | Texto string nat
  | Archivo bytes string
  | SinRespuesta
  | Excepcion excepcion

text \<open>The outcome of one request: the state afterwards, the messages flashed to the user,
  the events emitted and the response.\<close>

record salida =
  estado_final :: estado
  flashes :: "string list"
  emitidos :: "evento list"
  respuesta :: respuesta

definition salir :: "estado \<Rightarrow> string list \<Rightarrow> evento list \<Rightarrow> respuesta \<Rightarrow> salida" where
  "salir st fl ev r = \<lparr>estado_final = st, flashes = fl, emitidos = ev, respuesta = r\<rparr>"

text \<open>The messages an outcome shows to the caller: the flashed ones, and the text of an
  error response.\<close>

definition mensajes_usuario :: "salida \<Rightarrow> string list" where
  "mensajes_usuario r =
     flashes r @ (case respuesta r of JsonError m _ \<Rightarrow> [m] | Texto m _ \<Rightarrow> [m] | _ \<Rightarrow> [])"

text \<open>\<open>request.form.get(k, d)\<close> and \<open>session.get("username", d)\<close>.\<close>

definition form_get :: "(string \<rightharpoonup> string) \<Rightarrow> string \<Rightarrow> string \<Rightarrow> string" where
  "form_get form k d = (case form k of None \<Rightarrow> d | Some v \<Rightarrow> v)"

definition session_username :: "sesion \<Rightarrow> string \<Rightarrow> string" where
  "session_username ses d = (case username ses of None \<Rightarrow> d | Some n \<Rightarrow> n)"

section \<open>Helpers of the application\<close>


definition nombre_sala :: "string \<Rightarrow> nat \<Rightarrow> string" where
  "nombre_sala tipo_sala id_s = tipo_sala @ ''_'' @ str_nat id_s"

definition nombre_sala_usuario :: "nat \<Rightarrow> string" where
  "nombre_sala_usuario id_u = ''user_'' @ str_nat id_u"

text \<open>The condition of the membership query, used by \<open>usuario_en_sala\<close> and by the
  handlers that run the same query themselves.\<close>

definition es_miembro :: "nat \<Rightarrow> nat \<Rightarrow> miembro_row \<Rightarrow> bool" where
  "es_miembro id_s id_u m = (miembro_id_sala m = id_s \<and> miembro_id_usuario m = id_u)"

definition usuario_en_sala :: "db \<Rightarrow> nat \<Rightarrow> nat \<Rightarrow> bool" where
  "usuario_en_sala d id_u id_s = (consultar_one (es_miembro id_s id_u) (Miembros_Sala d) \<noteq> None)"


text \<open>\<open>INSERT INTO Mensajes_Sala\<close>: the row gets the next id; \<open>cur.lastrowid\<close> is that id.\<close>

definition insertar_mensaje ::
  "db \<Rightarrow> nat \<Rightarrow> nat option \<Rightarrow> string \<Rightarrow> fecha \<Rightarrow> bool \<Rightarrow> string option \<Rightarrow> bytes option \<Rightarrow> db" where
  "insertar_mensaje d id_s emisor texto f sistema tipo blob =
     d\<lparr>Mensajes_Sala := Mensajes_Sala d @
          [\<lparr>id_mensaje = auto_mensaje d, mensaje_id_sala = id_s, id_emisor = emisor,
            contenido = texto, fecha_envio = f, es_sistema = sistema,
            tipo_archivo = tipo, archivo_datos = blob\<rparr>],
       auto_mensaje := Suc (auto_mensaje d)\<rparr>"

text \<open>\<open>INSERT INTO Miembros_Sala\<close>.\<close>

definition insertar_miembro :: "db \<Rightarrow> nat \<Rightarrow> nat \<Rightarrow> fecha \<Rightarrow> db" where
  "insertar_miembro d id_s id_u f =
     d\<lparr>Miembros_Sala := Miembros_Sala d @
          [\<lparr>id_miembro = auto_miembro d, miembro_id_sala = id_s, miembro_id_usuario = id_u,
            fecha_union = f\<rparr>],
       auto_miembro := Suc (auto_miembro d)\<rparr>"

text \<open>\<open>DELETE FROM Miembros_Sala WHERE id_sala = %s AND id_usuario = %s\<close>.\<close>

definition borrar_miembro :: "db \<Rightarrow> nat \<Rightarrow> nat \<Rightarrow> db" where
  "borrar_miembro d id_s id_u =
     d\<lparr>Miembros_Sala := filter (\<lambda>m. \<not> es_miembro id_s id_u m) (Miembros_Sala d)\<rparr>"

text \<open>Modelled from the spec: the cascade is declared with the tables, which are not part
  of the sources. \<open>DELETE FROM Salas WHERE id_sala = %s\<close> removes the room and, by the
  cascade, the memberships and messages of the room.\<close>

definition borrar_sala :: "db \<Rightarrow> nat \<Rightarrow> db" where
  "borrar_sala d id_s =
     d\<lparr>Salas := filter (\<lambda>s. id_sala s \<noteq> id_s) (Salas d),
       Miembros_Sala := filter (\<lambda>m. miembro_id_sala m \<noteq> id_s) (Miembros_Sala d),
       Mensajes_Sala := filter (\<lambda>m. mensaje_id_sala m \<noteq> id_s) (Mensajes_Sala d)\<rparr>"

text \<open>\<open>insertar_aviso_sala\<close>: a system message, without sender and without file.\<close>

definition insertar_aviso_sala :: "db \<Rightarrow> nat \<Rightarrow> string \<Rightarrow> fecha \<Rightarrow> db" where
  "insertar_aviso_sala d id_s mensaje f = insertar_mensaje d id_s None mensaje f True None None"

text \<open>The \<open>room_notice\<close> event that the join and leave handlers emit.\<close>

definition room_notice :: "nat \<Rightarrow> string \<Rightarrow> fecha \<Rightarrow> evento" where
  "room_notice id_s aviso f =
     \<lparr>nombre = ''room_notice'',
      datos = [(''room_type'', VStr ''room''), (''room_id'', VInt id_s), (''body'', VStr aviso),
               (''timestamp'', VFecha f)],
      destino = nombre_sala ''room'' id_s\<rparr>"

section \<open>The HTTP handlers\<close>

text \<open>
  Each handler takes the state, the session, the clock and the parsed request (the form
  fields, the query arguments, the uploaded files). The decorator \<open>requiere_login\<close>
  answers with a redirect to the login view when the session has no \<open>user_id\<close>;
  otherwise the outcome is that of the handler.
\<close>

definition requiere_login :: "sesion \<Rightarrow> estado \<Rightarrow> salida \<Rightarrow> salida" where
  "requiere_login ses st fn =
     (if user_id ses = None then salir st [] [] (Redirect ''login'') else fn)"

text \<open>\<open>room_join\<close>; \<open>room_join_fn\<close> is the function under the decorator, where
  \<open>session["user_id"]\<close> raises \<open>KeyError\<close> on a session without user.\<close>

definition room_join_fn :: "estado \<Rightarrow> sesion \<Rightarrow> (nat \<Rightarrow> fecha) \<Rightarrow> (string \<rightharpoonup> string) \<Rightarrow> salida" where
  "room_join_fn st ses reloj form =
     (case user_id ses of
        None \<Rightarrow> salir st [] [] (Excepcion KeyError)
      | Some id_u \<Rightarrow>
          (let cod = upper (strip (form_get form ''code'' ''''))
           in if length cod \<noteq> 6 \<or> \<not> isdigit cod
              then salir st [''Codigo invalido.''] [] (Redirect ''chat'')
              else
                (case consultar_one (\<lambda>s. codigo s = cod) (Salas (base st)) of
                   None \<Rightarrow> salir st [''Sala no encontrada.''] [] (Redirect ''chat'')
                 | Some sala \<Rightarrow>
                     (case consultar_one (es_miembro (id_sala sala) id_u) (Miembros_Sala (base st)) of
                        Some existente \<Rightarrow> salir st [''Ya estas en esa sala.''] [] (Redirect ''chat'')
                      | None \<Rightarrow>
                          (let d1 = insertar_miembro (base st) (id_sala sala) id_u (reloj 0);
                               f = reloj 1;
                               aviso = session_username ses ''Anon'' @ '' se unio a la sala.'';
                               d2 = insertar_aviso_sala d1 (id_sala sala) aviso f
                           in salir (st\<lparr>base := d2\<rparr>) [''Te uniste a la sala.'']
                                [room_notice (id_sala sala) aviso f,
                                 \<lparr>nombre = ''actualizar_ui'',
                                  datos = [(''motivo'', VStr ''nueva_sala'')],
                                  destino = nombre_sala_usuario id_u\<rparr>]
                                (Redirect ''chat''))))))"

definition room_join :: "estado \<Rightarrow> sesion \<Rightarrow> (nat \<Rightarrow> fecha) \<Rightarrow> (string \<rightharpoonup> string) \<Rightarrow> salida" where
  "room_join st ses reloj form = requiere_login ses st (room_join_fn st ses reloj form)"

text \<open>\<open>room_delete\<close>. \<open>int(room_id)\<close> raises \<open>ValueError\<close> on a string of digits that are
  not all decimal or are more than \<open>int_max_str_digits\<close>; no handler catches it.\<close>

definition room_delete_fn :: "estado \<Rightarrow> sesion \<Rightarrow> (string \<rightharpoonup> string) \<Rightarrow> salida" where
  "room_delete_fn st ses form =
     (case user_id ses of
        None \<Rightarrow> salir st [] [] (Excepcion KeyError)
      | Some id_u \<Rightarrow>
          (let room_id_s = strip (form_get form ''room_id'' '''')
           in if \<not> isdigit room_id_s
              then salir st [''Sala invalida.''] [] (Redirect ''chat'')
              else
                (case int_of_str room_id_s of
                   None \<Rightarrow> salir st [] [] (Excepcion ValueError)
                 | Some room_id \<Rightarrow>
                     (case consultar_one (\<lambda>s. id_sala s = room_id) (Salas (base st)) of
                        None \<Rightarrow> salir st [''Sala no encontrada.''] [] (Redirect ''chat'')
                      | Some sala \<Rightarrow>
                          if id_creador sala \<noteq> id_u
                          then salir st [''Solo el creador puede borrar la sala.''] [] (Redirect ''chat'')
                          else salir (st\<lparr>base := borrar_sala (base st) room_id\<rparr>)
                                 [''Sala eliminada.'']
                                 [\<lparr>nombre = ''actualizar_ui'',
                                   datos = [(''motivo'', VStr ''sala_eliminada'')],
                                   destino = nombre_sala ''room'' room_id\<rparr>]
                                 (Redirect ''chat'')))))"

definition room_delete :: "estado \<Rightarrow> sesion \<Rightarrow> (string \<rightharpoonup> string) \<Rightarrow> salida" where
  "room_delete st ses form = requiere_login ses st (room_delete_fn st ses form)"

text \<open>\<open>room_leave\<close>.\<close>

definition room_leave_fn :: "estado \<Rightarrow> sesion \<Rightarrow> (nat \<Rightarrow> fecha) \<Rightarrow> (string \<rightharpoonup> string) \<Rightarrow> salida" where
  "room_leave_fn st ses reloj form =
     (case user_id ses of
        None \<Rightarrow> salir st [] [] (Excepcion KeyError)
      | Some id_u \<Rightarrow>
          (let room_id_s = strip (form_get form ''room_id'' '''')
           in if \<not> isdigit room_id_s
              then salir st [''Sala invalida.''] [] (Redirect ''chat'')
              else
                (case int_of_str room_id_s of
                   None \<Rightarrow> salir st [] [] (Excepcion ValueError)
                 | Some room_id \<Rightarrow>
                     (case consultar_one (es_miembro room_id id_u) (Miembros_Sala (base st)) of
                        None \<Rightarrow> salir st [''No perteneces a esa sala.''] [] (Redirect ''chat'')
                      | Some miembro \<Rightarrow>
                          (let d1 = borrar_miembro (base st) room_id id_u;
                               f = reloj 0;
                               aviso = session_username ses ''Anon'' @ '' salio de la sala.'';
                               d2 = insertar_aviso_sala d1 room_id aviso f
                           in salir (st\<lparr>base := d2\<rparr>) [''Saliste de la sala.'']
                                [room_notice room_id aviso f]
                                (Redirect ''chat''))))))"

definition room_leave :: "estado \<Rightarrow> sesion \<Rightarrow> (nat \<Rightarrow> fecha) \<Rightarrow> (string \<rightharpoonup> string) \<Rightarrow> salida" where
  "room_leave st ses reloj form = requiere_login ses st (room_leave_fn st ses reloj form)"

text \<open>\<open>api_messages\<close>. The query orders the messages of the room by descending id and
  keeps the first 50; \<open>id_mensaje\<close> is the key of the table, and \<open>id_usuario\<close> the key of
  \<open>Usuarios\<close>, so the left join gives each message one row, whose sender is \<open>NULL\<close> when
  the message has no sender.\<close>

definition fila_de :: "db \<Rightarrow> mensaje_row \<Rightarrow> fila_historial" where
  "fila_de d m =
     \<lparr>h_id_mensaje = id_mensaje m, h_contenido = contenido m, h_fecha_envio = fecha_envio m,
      h_es_sistema = es_sistema m, h_tipo_archivo = tipo_archivo m,
      h_sender = (case id_emisor m of
                    None \<Rightarrow> None
                  | Some e \<Rightarrow> map_option usuario (consultar_one (\<lambda>u. id_usuario u = e) (Usuarios d)))\<rparr>"

definition consulta_historial :: "db \<Rightarrow> nat \<Rightarrow> fila_historial list" where
  "consulta_historial d room_id =
     map (fila_de d)
       (take 50 (rev (sort_key id_mensaje (filter (\<lambda>m. mensaje_id_sala m = room_id) (Mensajes_Sala d)))))"

definition api_messages_fn :: "estado \<Rightarrow> sesion \<Rightarrow> (string \<rightharpoonup> string) \<Rightarrow> salida" where
  "api_messages_fn st ses args =
     (case user_id ses of
        None \<Rightarrow> salir st [] [] (Excepcion KeyError)
      | Some id_u \<Rightarrow>
          (let room_type = form_get args ''room_type'' '''';
               room_id_s = form_get args ''room_id'' ''''
           in if \<not> isdigit room_id_s \<or> room_type \<noteq> ''room''
              then salir st [] [] (JsonLista [])
              else
                (case int_of_str room_id_s of
                   None \<Rightarrow> salir st [] [] (Excepcion ValueError)
                 | Some room_id \<Rightarrow>
                     if \<not> usuario_en_sala (base st) id_u room_id
                     then salir st [] [] (JsonLista [])
                     else salir st [] [] (JsonLista (rev (consulta_historial (base st) room_id))))))"

definition api_messages :: "estado \<Rightarrow> sesion \<Rightarrow> (string \<rightharpoonup> string) \<Rightarrow> salida" where
  "api_messages st ses args = requiere_login ses st (api_messages_fn st ses args)"





text \<open>\<open>get_media\<close>: the route has no decorator; the session is an argument the handler
  never reads.\<close>

definition get_media :: "estado \<Rightarrow> sesion \<Rightarrow> nat \<Rightarrow> salida" where
  "get_media st ses id_m =
     (case consultar_one (\<lambda>m. id_mensaje m = id_m) (Mensajes_Sala (base st)) of
        None \<Rightarrow> salir st [] [] (Texto ''Not found'' 404)
      | Some mensaje \<Rightarrow>
          (case archivo_datos mensaje of
             None \<Rightarrow> salir st [] [] (Texto ''Not found'' 404)
           | Some blob \<Rightarrow>
               if blob = [] then salir st [] [] (Texto ''Not found'' 404)
               else
                 (let mime_types =
                        [(''audio'', ''audio/mpeg''),
                         (''video'', ''video/mp4''),
                         (''image'',
                            if endswith (lower (contenido mensaje)) ''.jpeg''
                               \<or> endswith (lower (contenido mensaje)) ''.jpg''
                            then ''image/jpeg'' else ''image/png'')];
                      mime_type =
                        (case tipo_archivo mensaje of
                           None \<Rightarrow> ''application/octet-stream''
                         | Some t \<Rightarrow>
                             (case map_of mime_types t of
                                None \<Rightarrow> ''application/octet-stream''
                              | Some mt \<Rightarrow> mt))
                  in salir st [] [] (Archivo blob mime_type))))"

section \<open>The Socket.IO handlers\<close>

text \<open>\<open>manejar_conexion\<close>: the connection \<open>sid\<close> joins the room of its user and the room
  of every room the user is a member of. A user id of zero counts as false.\<close>

definition manejar_conexion :: "estado \<Rightarrow> sesion \<Rightarrow> nat \<Rightarrow> estado" where
  "manejar_conexion st ses sid =
     (case user_id ses of
        None \<Rightarrow> st
      | Some id_u \<Rightarrow>
          if id_u = 0 then st
          else
            (let salas = filter (\<lambda>m. miembro_id_usuario m = id_u) (Miembros_Sala (base st))
             in st\<lparr>suscripciones := suscripciones st @
                     (sid, nombre_sala_usuario id_u) #
                     map (\<lambda>m. (sid, nombre_sala ''room'' (miembro_id_sala m))) salas\<rparr>))"






section \<open>A small installation\<close>

text \<open>
  Two users, Ana (1) and Beto (2). Room 1 has the code \<open>000000\<close>, was created by Ana and
  has Ana as its only member; its log holds the notice of her joining and one message.
  The handlers are run on it below.
\<close>

definition db_ej :: db where
  "db_ej =
     \<lparr>Usuarios = [\<lparr>id_usuario = 1, usuario = ''ana'', contrasena = ''x''\<rparr>,
                  \<lparr>id_usuario = 2, usuario = ''beto'', contrasena = ''y''\<rparr>],
      Salas = [\<lparr>id_sala = 1, codigo = ''000000'', nombre_sala = ''Test'', id_creador = 1,
                 fecha_creacion = 0\<rparr>],
      Miembros_Sala = [\<lparr>id_miembro = 1, miembro_id_sala = 1, miembro_id_usuario = 1, fecha_union = 0\<rparr>],
      Mensajes_Sala =
        [\<lparr>id_mensaje = 1, mensaje_id_sala = 1, id_emisor = None,
          contenido = ''ana se unio a la sala.'', fecha_envio = 0, es_sistema = True,
          tipo_archivo = None, archivo_datos = None\<rparr>,
         \<lparr>id_mensaje = 2, mensaje_id_sala = 1, id_emisor = Some 1,
          contenido = ''hi'', fecha_envio = 1, es_sistema = False,
          tipo_archivo = None, archivo_datos = None\<rparr>],
      auto_miembro = 2,
      auto_mensaje = 3\<rparr>"

definition estado_ej :: estado where
  "estado_ej = \<lparr>base = db_ej, suscripciones = [(7, ''user_1''), (7, ''room_1'')]\<rparr>"

definition ana :: sesion where
  "ana = \<lparr>user_id = Some 1, username = Some ''ana''\<rparr>"

definition beto :: sesion where
  "beto = \<lparr>user_id = Some 2, username = Some ''beto''\<rparr>"

definition anonimo :: sesion where
  "anonimo = \<lparr>user_id = None, username = None\<rparr>"

text \<open>A clock that shows 10 at its first reading and 11 at its second, and a random source
  whose first six draws are zero.\<close>

definition reloj_ej :: "nat \<Rightarrow> fecha" where
  "reloj_ej k = 10 + k"

definition azar_ej :: "nat \<Rightarrow> nat" where
  "azar_ej n = (if n < 6 then 0 else n)"

section \<open>Vocabulary of the properties\<close>

text \<open>The log of a room: its messages in ascending order of their ids.\<close>

definition mensajes_de_sala :: "db \<Rightarrow> nat \<Rightarrow> mensaje_row list" where
  "mensajes_de_sala d id_s =
     sort_key id_mensaje (filter (\<lambda>m. mensaje_id_sala m = id_s) (Mensajes_Sala d))"

text \<open>The last \<open>n\<close> elements of a list.\<close>

definition ultimos :: "nat \<Rightarrow> 'a list \<Rightarrow> 'a list" where
  "ultimos n xs = drop (length xs - n) xs"

text \<open>A room with sixty messages, stored with the newest first; Ana is its member.\<close>

definition mensaje_ej :: "nat \<Rightarrow> mensaje_row" where
  "mensaje_ej i =
     \<lparr>id_mensaje = i, mensaje_id_sala = 1, id_emisor = Some 1, contenido = ''hola'',
      fecha_envio = i, es_sistema = False, tipo_archivo = None, archivo_datos = None\<rparr>"

definition estado_largo :: estado where
  "estado_largo =
     \<lparr>base = db_ej\<lparr>Mensajes_Sala := map mensaje_ej (rev [1..<61]), auto_mensaje := 61\<rparr>,
      suscripciones = []\<rparr>"




text \<open>No file can be served for a message id: no message has that id, or the message has
  no file data, or its file data is empty.\<close>

definition sin_datos :: "db \<Rightarrow> nat \<Rightarrow> bool" where
  "sin_datos d id_m =
     (case consultar_one (\<lambda>m. id_mensaje m = id_m) (Mensajes_Sala d) of
        None \<Rightarrow> True
      | Some m \<Rightarrow> archivo_datos m = None \<or> archivo_datos m = Some [])"

text \<open>The small installation after Ana has uploaded a picture to room 1.\<close>

definition estado_media :: estado where
  "estado_media =
     estado_ej\<lparr>base := insertar_mensaje db_ej 1 (Some 1) ''foto.jpg'' 5 False (Some ''image'')
                         (Some [255, 216, 255])\<rparr>"
section \<open>Properties of the query helper\<close>

lemma consultar_one_None: "consultar_one cond filas = None \<longleftrightarrow> (\<forall>f \<in> set filas. \<not> cond f)"
proof (cases "filter cond filas")
  case Nil
  then show ?thesis by (simp add: consultar_one_def filter_empty_conv)
next
  case (Cons a rest)
  then have "a \<in> set (filter cond filas)" by simp
  then have "a \<in> set filas \<and> cond a" by simp
  with Cons show ?thesis by (auto simp: consultar_one_def)
qed

lemma consultar_one_Some: "consultar_one cond filas = Some f \<Longrightarrow> f \<in> set filas \<and> cond f"
proof -
  assume "consultar_one cond filas = Some f"
  then obtain rest where "filter cond filas = f # rest"
    by (auto simp: consultar_one_def split: list.splits)
  then have "f \<in> set (filter cond filas)" by simp
  then show ?thesis by simp
qed

section \<open>Properties of the code generator\<close>

lemma libre_iff: "consultar_one (\<lambda>s. codigo s = c) (Salas d) = None \<longleftrightarrow> \<not> en_uso d c"
  by (auto simp: consultar_one_None en_uso_def)

lemma seis_digitos_length: "length (seis_digitos azar i) = 6"
  by (simp add: seis_digitos_def)

lemma alfabeto_decimal: "k < 10 \<Longrightarrow> decimal_char (CODIGO_ALFABETO ! k)"
proof -
  assume "k < 10"
  then have "k \<in> {0, 1, 2, 3, 4, 5, 6, 7, 8, 9}" by auto
  then show ?thesis
    by (auto simp: CODIGO_ALFABETO_def decimal_char_def cp_def)
qed

lemma alfabeto_length: "length CODIGO_ALFABETO = 10"
  by (simp add: CODIGO_ALFABETO_def)

lemma seis_digitos_decimal: "list_all decimal_char (seis_digitos azar i)"
proof -
  have "decimal_char (secrets_choice CODIGO_ALFABETO r)" for r
    unfolding secrets_choice_def alfabeto_length by (rule alfabeto_decimal) simp
  then show ?thesis
    unfolding seis_digitos_def list_all_iff by auto
qed

lemma generar_primero_libre:
  "\<not> en_uso d (seis_digitos azar (i + 6 * k)) \<Longrightarrow>
   (\<forall>j < k. en_uso d (seis_digitos azar (i + 6 * j))) \<Longrightarrow>
   generar_codigo_sala d azar i = Some (seis_digitos azar (i + 6 * k))"
proof (induction k arbitrary: i)
  case 0
  then show ?case
    by (subst generar_codigo_sala.simps) (simp add: libre_iff)
next
  case (Suc k)
  have paso: "i + 6 * Suc j = (i + 6) + 6 * j" for j
    by simp
  have "en_uso d (seis_digitos azar (i + 6 * 0))"
    using Suc.prems(2) by blast
  then have usado: "en_uso d (seis_digitos azar i)"
    by simp
  have libre: "\<not> en_uso d (seis_digitos azar ((i + 6) + 6 * k))"
    using Suc.prems(1) unfolding paso .
  have antes: "\<forall>j < k. en_uso d (seis_digitos azar ((i + 6) + 6 * j))"
  proof (intro allI impI)
    fix j assume "j < k"
    then have "Suc j < Suc k" by simp
    then have "en_uso d (seis_digitos azar (i + 6 * Suc j))"
      using Suc.prems(2) by blast
    then show "en_uso d (seis_digitos azar ((i + 6) + 6 * j))"
      unfolding paso .
  qed
  have "generar_codigo_sala d azar (i + 6) = Some (seis_digitos azar ((i + 6) + 6 * k))"
    by (rule Suc.IH [OF libre antes])
  then have "generar_codigo_sala d azar (i + 6) = Some (seis_digitos azar (i + 6 * Suc k))"
    unfolding paso .
  then show ?case
    using usado by (subst generar_codigo_sala.simps) (simp only: libre_iff if_False simp_thms)
qed

lemma generar_Some_libre:
  assumes "generar_codigo_sala d azar i = Some c"
  shows "\<exists>k. c = seis_digitos azar (i + 6 * k) \<and> \<not> en_uso d c"
proof (rule generar_codigo_sala.raw_induct
    [where P = "\<lambda>d azar i c. \<exists>k. c = seis_digitos azar (i + 6 * k) \<and> \<not> en_uso d c", OF _ assms])
  fix f :: "db \<Rightarrow> (nat \<Rightarrow> nat) \<Rightarrow> nat \<Rightarrow> string option" and d azar i c
  assume IH: "\<And>d azar i c. f d azar i = Some c \<Longrightarrow> \<exists>k. c = seis_digitos azar (i + 6 * k) \<and> \<not> en_uso d c"
  assume paso: "(if consultar_one (\<lambda>s. codigo s = seis_digitos azar i) (Salas d) = None
      then Some (seis_digitos azar i) else f d azar (i + 6)) = Some c"
  show "\<exists>k. c = seis_digitos azar (i + 6 * k) \<and> \<not> en_uso d c"
  proof (cases "en_uso d (seis_digitos azar i)")
    case False
    with paso have "c = seis_digitos azar i"
      by (simp add: libre_iff)
    with False have "c = seis_digitos azar (i + 6 * 0) \<and> \<not> en_uso d c"
      by simp
    then show ?thesis by (rule exI)
  next
    case True
    with paso have "f d azar (i + 6) = Some c"
      by (simp add: libre_iff)
    then obtain k where k: "c = seis_digitos azar ((i + 6) + 6 * k)" "\<not> en_uso d c"
      using IH by blast
    have e: "i + 6 * Suc k = (i + 6) + 6 * k" by simp
    from k have "c = seis_digitos azar (i + 6 * Suc k) \<and> \<not> en_uso d c"
      unfolding e by blast
    then show ?thesis by (rule exI)
  qed
qed

section \<open>Properties of the handlers' helpers\<close>

lemma salir_sel [simp]:
  "estado_final (salir st fl ev r) = st"
  "flashes (salir st fl ev r) = fl"
  "emitidos (salir st fl ev r) = ev"
  "respuesta (salir st fl ev r) = r"
  by (simp_all add: salir_def)

lemma decimal_no_espacio: "decimal_char c \<Longrightarrow> \<not> isspace_char c"
  by (auto simp: decimal_char_def isspace_char_def)

lemma decimal_upper_char: "decimal_char c \<Longrightarrow> upper_char c = [c]"
  by (auto simp: decimal_char_def upper_char_def)

lemma dropWhile_ninguno: "\<forall>x \<in> set xs. \<not> P x \<Longrightarrow> dropWhile P xs = xs"
  by (cases xs) auto

lemma strip_decimal: "list_all decimal_char s \<Longrightarrow> strip s = s"
  by (simp add: strip_def list_all_iff dropWhile_ninguno decimal_no_espacio)

lemma upper_decimal: "list_all decimal_char s \<Longrightarrow> upper s = s"
  by (induction s) (simp_all add: upper_def decimal_upper_char)

lemma decimal_isdigit: "list_all decimal_char s \<Longrightarrow> s \<noteq> [] \<Longrightarrow> isdigit s"
  by (auto simp: isdigit_def isdigit_char_def list_all_iff)

lemma int_of_str_isdigit: "int_of_str s = Some n \<Longrightarrow> isdigit s"
  by (auto simp: int_of_str_def decimal_isdigit split: if_splits)

section \<open>Properties of the history query\<close>

lemma mensajes_de_sala_set:
  "set (mensajes_de_sala d id_s) = {m \<in> set (Mensajes_Sala d). mensaje_id_sala m = id_s}"
  by (auto simp: mensajes_de_sala_def)

lemma mensajes_de_sala_orden:
  assumes "distinct (map id_mensaje (Mensajes_Sala d))"
  shows "sorted_wrt (<) (map id_mensaje (mensajes_de_sala d id_s))"
proof -
  let ?xs = "filter (\<lambda>m. mensaje_id_sala m = id_s) (Mensajes_Sala d)"
  have "distinct (map id_mensaje ?xs)"
    using assms by (rule distinct_map_filter)
  then have "distinct ?xs" "inj_on id_mensaje (set ?xs)"
    by (simp_all add: distinct_map)
  then have "distinct (map id_mensaje (sort_key id_mensaje ?xs))"
    by (simp add: distinct_map)
  moreover have "sorted (map id_mensaje (sort_key id_mensaje ?xs))"
    by (rule sorted_sort_key)
  ultimately show ?thesis
    by (simp add: strict_sorted_iff mensajes_de_sala_def)
qed

lemma consulta_historial_rev:
  "rev (consulta_historial d id_s) = map (fila_de d) (ultimos 50 (mensajes_de_sala d id_s))"
  by (simp add: consulta_historial_def mensajes_de_sala_def ultimos_def take_rev rev_map)

lemma fila_de_id: "map h_id_mensaje (map (fila_de d) ms) = map id_mensaje ms"
  by (simp add: fila_de_def)

lemma sorted_wrt_ultimos: "sorted_wrt R xs \<Longrightarrow> sorted_wrt R (ultimos n xs)"
  by (simp add: ultimos_def)

lemma length_ultimos: "length (ultimos n xs) = min n (length xs)"
  by (simp add: ultimos_def)


section \<open>Digits and upper case\<close>





section \<open>File extensions\<close>




section \<open>Generated room codes\<close>

text \<open>
  C4. Every code that \<open>generar_codigo_sala\<close> returns is a string of exactly six decimal
  digits and is, in the database the generator reads, the code of no room. The generator
  tries one candidate after the other and returns as soon as a candidate is unused: it
  returns a code whenever some candidate of the random source is unused.
\<close>

theorem generar_codigo_sala_codigo:
  "(generar_codigo_sala d azar i = Some c \<longrightarrow>
      length c = 6 \<and> list_all decimal_char c \<and> \<not> en_uso d c)
   \<and> ((\<exists>k. \<not> en_uso d (seis_digitos azar (i + 6 * k))) \<longrightarrow>
      (\<exists>c'. generar_codigo_sala d azar i = Some c'))"
proof (intro conjI impI)
  assume g: "generar_codigo_sala d azar i = Some c"
  then obtain k where k: "c = seis_digitos azar (i + 6 * k)" "\<not> en_uso d c"
    using generar_Some_libre by blast
  from k show "length c = 6" by (simp add: seis_digitos_length)
  from k show "list_all decimal_char c" by (simp add: seis_digitos_decimal)
  from k show "\<not> en_uso d c" by simp
next
  assume "\<exists>k. \<not> en_uso d (seis_digitos azar (i + 6 * k))"
  then obtain k where k: "\<not> en_uso d (seis_digitos azar (i + 6 * k))" ..
  define k0 where "k0 = (LEAST k. \<not> en_uso d (seis_digitos azar (i + 6 * k)))"
  have libre: "\<not> en_uso d (seis_digitos azar (i + 6 * k0))"
    unfolding k0_def using k by (rule LeastI)
  have antes: "\<forall>j < k0. en_uso d (seis_digitos azar (i + 6 * j))"
  proof (intro allI impI)
    fix j assume "j < k0"
    then show "en_uso d (seis_digitos azar (i + 6 * j))"
      unfolding k0_def using not_less_Least by blast
  qed
  have "generar_codigo_sala d azar i = Some (seis_digitos azar (i + 6 * k0))"
    using libre antes by (rule generar_primero_libre)
  then show "\<exists>c'. generar_codigo_sala d azar i = Some c'" ..
qed

theorem generar_codigo_sala_codigo_witness:
  "generar_codigo_sala db_ej azar_ej 0 = Some ''678901''
   \<and> \<not> en_uso db_ej (seis_digitos azar_ej (0 + 6 * 1))
   \<and> length ''678901'' = 6 \<and> list_all decimal_char ''678901'' \<and> \<not> en_uso db_ej ''678901''"
proof -
  have c0: "seis_digitos azar_ej 0 = ''000000''"
    by code_simp
  have c1: "seis_digitos azar_ej 6 = ''678901''"
    by code_simp
  have u0: "en_uso db_ej ''000000''"
    by (simp add: en_uso_def db_ej_def)
  have u1: "\<not> en_uso db_ej ''678901''"
    by (simp add: en_uso_def db_ej_def)
  have h: "\<exists>k. \<not> en_uso db_ej (seis_digitos azar_ej (0 + 6 * k))"
    using u1 c1 by (intro exI [of _ 1]) simp
  have "generar_codigo_sala db_ej azar_ej 0 = Some ''678901''"
    using generar_primero_libre [of db_ej azar_ej 0 1] c0 c1 u0 u1 by simp
  moreover have "\<not> en_uso db_ej (seis_digitos azar_ej (0 + 6 * 1))"
    using u1 c1 by simp
  ultimately show ?thesis
    using generar_codigo_sala_codigo [of db_ej azar_ej 0 "''678901''"] h by blast
qed

section \<open>Joining a room\<close>

text \<open>
  C1. A logged-in user submits a code that, trimmed, is a string \<open>c\<close> of six decimal
  digits, and \<open>c\<close> is the code of an existing room. If the user is not a member of that
  room, \<open>room_join\<close> appends exactly one row to \<open>Miembros_Sala\<close>, the membership of this
  user in this room, and exactly one row to \<open>Mensajes_Sala\<close>, a system notice of this room;
  the rooms stay as they are and the user is a member afterwards. If the user is a member
  already, the join is rejected with the message \<open>Ya estas en esa sala.\<close> and the state is
  unchanged, so no second membership row appears.
\<close>

theorem room_join_una_membresia:
  assumes u: "user_id ses = Some u"
    and c: "upper (strip (form_get form ''code'' '''')) = c"
    and c6: "length c = 6" and cd: "list_all decimal_char c"
    and sala: "consultar_one (\<lambda>s. codigo s = c) (Salas (base st)) = Some sala"
  shows
    "(\<not> usuario_en_sala (base st) u (id_sala sala) \<longrightarrow>
        Miembros_Sala (base (estado_final (room_join st ses reloj form))) =
          Miembros_Sala (base st) @
            [\<lparr>id_miembro = auto_miembro (base st), miembro_id_sala = id_sala sala,
              miembro_id_usuario = u, fecha_union = reloj 0\<rparr>]
        \<and> Mensajes_Sala (base (estado_final (room_join st ses reloj form))) =
          Mensajes_Sala (base st) @
            [\<lparr>id_mensaje = auto_mensaje (base st), mensaje_id_sala = id_sala sala,
              id_emisor = None,
              contenido = session_username ses ''Anon'' @ '' se unio a la sala.'',
              fecha_envio = reloj 1, es_sistema = True, tipo_archivo = None,
              archivo_datos = None\<rparr>]
        \<and> Salas (base (estado_final (room_join st ses reloj form))) = Salas (base st)
        \<and> usuario_en_sala (base (estado_final (room_join st ses reloj form))) u (id_sala sala))
     \<and> (usuario_en_sala (base st) u (id_sala sala) \<longrightarrow>
        estado_final (room_join st ses reloj form) = st
        \<and> mensajes_usuario (room_join st ses reloj form) = [''Ya estas en esa sala.'']
        \<and> emitidos (room_join st ses reloj form) = [])"
proof -
  have dig: "isdigit c"
    using cd c6 by (intro decimal_isdigit) auto
  show ?thesis
  proof (cases "consultar_one (es_miembro (id_sala sala) u) (Miembros_Sala (base st))")
    case None
    then have r: "room_join st ses reloj form =
        salir (st\<lparr>base := insertar_aviso_sala
                  (insertar_miembro (base st) (id_sala sala) u (reloj 0)) (id_sala sala)
                  (session_username ses ''Anon'' @ '' se unio a la sala.'') (reloj 1)\<rparr>)
          [''Te uniste a la sala.'']
          [room_notice (id_sala sala) (session_username ses ''Anon'' @ '' se unio a la sala.'') (reloj 1),
           \<lparr>nombre = ''actualizar_ui'', datos = [(''motivo'', VStr ''nueva_sala'')],
            destino = nombre_sala_usuario u\<rparr>]
          (Redirect ''chat'')"
      using u c c6 dig sala
      by (simp add: room_join_def requiere_login_def room_join_fn_def Let_def)
    have no: "\<not> usuario_en_sala (base st) u (id_sala sala)"
      using None by (simp add: usuario_en_sala_def)
    have m: "usuario_en_sala (base (estado_final (room_join st ses reloj form))) u (id_sala sala)"
      unfolding r
      by (simp add: usuario_en_sala_def consultar_one_None insertar_aviso_sala_def
          insertar_mensaje_def insertar_miembro_def es_miembro_def)
    show ?thesis
      using no m unfolding r
      by (simp add: insertar_aviso_sala_def insertar_mensaje_def insertar_miembro_def)
  next
    case (Some existente)
    then have r: "room_join st ses reloj form = salir st [''Ya estas en esa sala.''] [] (Redirect ''chat'')"
      using u c c6 dig sala
      by (simp add: room_join_def requiere_login_def room_join_fn_def Let_def)
    have si: "usuario_en_sala (base st) u (id_sala sala)"
      using Some by (simp add: usuario_en_sala_def)
    show ?thesis
      using si unfolding r by (simp add: mensajes_usuario_def)
  qed
qed


theorem room_join_una_membresia_witness:
  "\<not> usuario_en_sala db_ej 2 1
   \<and> Miembros_Sala (base (estado_final (room_join estado_ej beto reloj_ej [''code'' \<mapsto> '' 000000'']))) =
       Miembros_Sala db_ej @
         [\<lparr>id_miembro = 2, miembro_id_sala = 1, miembro_id_usuario = 2, fecha_union = 10\<rparr>]
   \<and> Mensajes_Sala (base (estado_final (room_join estado_ej beto reloj_ej [''code'' \<mapsto> '' 000000'']))) =
       Mensajes_Sala db_ej @
         [\<lparr>id_mensaje = 3, mensaje_id_sala = 1, id_emisor = None,
           contenido = ''beto se unio a la sala.'', fecha_envio = 11, es_sistema = True,
           tipo_archivo = None, archivo_datos = None\<rparr>]
   \<and> usuario_en_sala db_ej 1 1
   \<and> estado_final (room_join estado_ej ana reloj_ej [''code'' \<mapsto> ''000000'']) = estado_ej
   \<and> mensajes_usuario (room_join estado_ej ana reloj_ej [''code'' \<mapsto> ''000000'']) =
       [''Ya estas en esa sala.'']"
proof -
  let ?sala = "\<lparr>id_sala = 1, codigo = ''000000'', nombre_sala = ''Test'', id_creador = 1,
                fecha_creacion = 0\<rparr>"
  have b: "user_id beto = Some 2" and a: "user_id ana = Some 1"
    by (simp_all add: beto_def ana_def)
  have cb: "upper (strip (form_get [''code'' \<mapsto> '' 000000''] ''code'' '''')) = ''000000''"
    by code_simp
  have ca: "upper (strip (form_get [''code'' \<mapsto> ''000000''] ''code'' '''')) = ''000000''"
    by code_simp
  have l: "length ''000000'' = 6" and d: "list_all decimal_char ''000000''"
    by (simp_all add: decimal_char_def cp_def)
  have s: "consultar_one (\<lambda>s. codigo s = ''000000'') (Salas (base estado_ej)) = Some ?sala"
    by (simp add: consultar_one_def estado_ej_def db_ej_def)
  have nb: "\<not> usuario_en_sala db_ej 2 1" and ma: "usuario_en_sala db_ej 1 1"
    by (simp_all add: usuario_en_sala_def consultar_one_def es_miembro_def db_ej_def)
  have base: "base estado_ej = db_ej"
    by (simp add: estado_ej_def)
  have nom: "session_username beto ''Anon'' = ''beto''"
    by (simp add: session_username_def beto_def)
  have aut: "auto_miembro db_ej = 2" "auto_mensaje db_ej = 3"
    by (simp_all add: db_ej_def)
  have r10: "reloj_ej 0 = 10" "reloj_ej (Suc 0) = 11"
    by (simp_all add: reloj_ej_def)
  show ?thesis
    using room_join_una_membresia [OF b cb l d s, of reloj_ej]
      room_join_una_membresia [OF a ca l d s, of reloj_ej] nb ma
    by (simp add: base nom aut r10)
qed

section \<open>Fetching the history\<close>

text \<open>
  C2. A logged-in member of room \<open>rid\<close> asks for the history of that room (room type
  \<open>room\<close>, room id written in decimal digits); message ids are the key of the table. Then
  \<open>api_messages\<close> changes nothing and answers with the reverse of the query result. The
  query result lists the ids of the room's log from the largest downwards and stops after
  50; the answer is therefore the last 50 entries of the log in ascending id order (the
  whole log when it is shorter): its ids are strictly increasing and its length is the
  minimum of 50 and the length of the log.
\<close>

theorem api_messages_ultimos_50:
  assumes u: "user_id ses = Some u"
    and tipo: "args ''room_type'' = Some ''room''"
    and rid: "args ''room_id'' = Some room_id_s" "int_of_str room_id_s = Some rid"
    and miembro: "usuario_en_sala (base st) u rid"
    and clave: "distinct (map id_mensaje (Mensajes_Sala (base st)))"
  shows
    "api_messages st ses args =
       salir st [] [] (JsonLista (rev (consulta_historial (base st) rid)))
     \<and> map h_id_mensaje (consulta_historial (base st) rid) =
         take 50 (rev (map id_mensaje (mensajes_de_sala (base st) rid)))
     \<and> rev (consulta_historial (base st) rid) =
         map (fila_de (base st)) (ultimos 50 (mensajes_de_sala (base st) rid))
     \<and> sorted_wrt (<) (map id_mensaje (mensajes_de_sala (base st) rid))
     \<and> sorted_wrt (<) (map h_id_mensaje (rev (consulta_historial (base st) rid)))
     \<and> length (rev (consulta_historial (base st) rid)) =
         min 50 (length (mensajes_de_sala (base st) rid))"
proof -
  have dig: "isdigit room_id_s"
    using rid(2) by (rule int_of_str_isdigit)
  have r: "api_messages st ses args =
       salir st [] [] (JsonLista (rev (consulta_historial (base st) rid)))"
    using u tipo rid miembro dig
    by (simp add: api_messages_def requiere_login_def api_messages_fn_def Let_def form_get_def)
  have q: "map h_id_mensaje (consulta_historial (base st) rid) =
         take 50 (rev (map id_mensaje (mensajes_de_sala (base st) rid)))"
    by (simp add: consulta_historial_def mensajes_de_sala_def fila_de_def take_map rev_map)
  have o: "sorted_wrt (<) (map id_mensaje (mensajes_de_sala (base st) rid))"
    using clave by (rule mensajes_de_sala_orden)
  have o2: "sorted_wrt (<) (map h_id_mensaje (rev (consulta_historial (base st) rid)))"
    unfolding consulta_historial_rev fila_de_id
    using o by (simp add: ultimos_def drop_map [symmetric])
  have l: "length (rev (consulta_historial (base st) rid)) =
         min 50 (length (mensajes_de_sala (base st) rid))"
    unfolding consulta_historial_rev by (simp add: length_ultimos)
  show ?thesis
    using r q o o2 l consulta_historial_rev by blast
qed


theorem api_messages_ultimos_50_witness:
  "length (mensajes_de_sala (base estado_largo) 1) = 60
   \<and> respuesta (api_messages estado_largo ana [''room_type'' \<mapsto> ''room'', ''room_id'' \<mapsto> ''1'']) =
       JsonLista (rev (consulta_historial (base estado_largo) 1))
   \<and> map h_id_mensaje (rev (consulta_historial (base estado_largo) 1)) = [11..<61]
   \<and> length (rev (consulta_historial (base estado_largo) 1)) = 50"
proof -
  let ?args = "[''room_type'' \<mapsto> ''room'', ''room_id'' \<mapsto> ''1'']"
  have a: "user_id ana = Some 1"
    by (simp add: ana_def)
  have t: "?args ''room_type'' = Some ''room''" and i: "?args ''room_id'' = Some ''1''"
    by simp_all
  have n: "int_of_str ''1'' = Some 1"
    by code_simp
  have m: "usuario_en_sala (base estado_largo) 1 1"
    by code_simp
  have k: "distinct (map id_mensaje (Mensajes_Sala (base estado_largo)))"
    by code_simp
  have len: "length (mensajes_de_sala (base estado_largo) 1) = 60"
    by code_simp
  have ids: "map h_id_mensaje (rev (consulta_historial (base estado_largo) 1)) = [11..<61]"
    by code_simp
  have r: "api_messages estado_largo ana ?args =
      salir estado_largo [] [] (JsonLista (rev (consulta_historial (base estado_largo) 1)))"
    using api_messages_ultimos_50 [OF a t i n m k] by blast
  have l: "length (rev (consulta_historial (base estado_largo) 1)) =
      min 50 (length (mensajes_de_sala (base estado_largo) 1))"
    using api_messages_ultimos_50 [OF a t i n m k] by blast
  have l50: "length (rev (consulta_historial (base estado_largo) 1)) = 50"
    unfolding l len by simp
  have resp: "respuesta (api_messages estado_largo ana ?args) =
      JsonLista (rev (consulta_historial (base estado_largo) 1))"
    unfolding r by (rule salir_sel)
  show ?thesis
    using len resp ids l50 by blast
qed

section \<open>Sending a message\<close>




section \<open>Deleting a room\<close>

text \<open>
  C5. Room ids are the key of \<open>Salas\<close>. Whenever \<open>room_delete\<close> removes a room row, the
  session's user is the creator of that room. When a logged-in user who is not the creator
  asks to delete an existing room, the request is rejected with the message
  \<open>Solo el creador puede borrar la sala.\<close>, nothing is emitted and the whole state, with
  the room, its memberships and its messages, is unchanged.
\<close>

theorem room_delete_solo_creador:
  assumes clave: "distinct (map id_sala (Salas (base st)))"
  shows
    "(s \<in> set (Salas (base st)) \<and> s \<notin> set (Salas (base (estado_final (room_delete st ses form))))
        \<longrightarrow> user_id ses = Some (id_creador s))
     \<and> (user_id ses = Some u
         \<and> int_of_str (strip (form_get form ''room_id'' '''')) = Some rid
         \<and> sala \<in> set (Salas (base st)) \<and> id_sala sala = rid \<and> id_creador sala \<noteq> u
        \<longrightarrow> estado_final (room_delete st ses form) = st
            \<and> mensajes_usuario (room_delete st ses form) = [''Solo el creador puede borrar la sala.'']
            \<and> emitidos (room_delete st ses form) = [])"
proof (intro conjI impI)
  assume a: "s \<in> set (Salas (base st)) \<and> s \<notin> set (Salas (base (estado_final (room_delete st ses form))))"
  then have cambio: "Salas (base (estado_final (room_delete st ses form))) \<noteq> Salas (base st)"
    by auto
  then obtain u rid sala where u: "user_id ses = Some u"
    and rid: "int_of_str (strip (form_get form ''room_id'' '''')) = Some rid"
    and sala: "consultar_one (\<lambda>s. id_sala s = rid) (Salas (base st)) = Some sala"
    and cre: "id_creador sala = u"
    and r: "estado_final (room_delete st ses form) = st\<lparr>base := borrar_sala (base st) rid\<rparr>"
    by (auto simp: room_delete_def requiere_login_def room_delete_fn_def Let_def
        split: option.splits if_splits)
  from a r have "id_sala s = rid"
    by (auto simp: borrar_sala_def)
  moreover from sala have "sala \<in> set (Salas (base st))" "id_sala sala = rid"
    using consultar_one_Some [OF sala] by auto
  ultimately have "s = sala"
    using a clave by (auto simp: distinct_map inj_on_def)
  with u cre show "user_id ses = Some (id_creador s)"
    by simp
next
  assume a: "user_id ses = Some u
         \<and> int_of_str (strip (form_get form ''room_id'' '''')) = Some rid
         \<and> sala \<in> set (Salas (base st)) \<and> id_sala sala = rid \<and> id_creador sala \<noteq> u"
  then have dig: "isdigit (strip (form_get form ''room_id'' ''''))"
    using int_of_str_isdigit by blast
  from a have "consultar_one (\<lambda>s. id_sala s = rid) (Salas (base st)) \<noteq> None"
    by (auto simp: consultar_one_None)
  then obtain s' where s': "consultar_one (\<lambda>s. id_sala s = rid) (Salas (base st)) = Some s'"
    by auto
  then have "s' \<in> set (Salas (base st))" "id_sala s' = rid"
    using consultar_one_Some [OF s'] by auto
  with a clave have "s' = sala"
    by (auto simp: distinct_map inj_on_def)
  with a s' dig have r: "room_delete st ses form =
      salir st [''Solo el creador puede borrar la sala.''] [] (Redirect ''chat'')"
    by (simp add: room_delete_def requiere_login_def room_delete_fn_def Let_def)
  show "estado_final (room_delete st ses form) = st"
    unfolding r by simp
  show "mensajes_usuario (room_delete st ses form) = [''Solo el creador puede borrar la sala.'']"
    unfolding r by (simp add: mensajes_usuario_def)
  show "emitidos (room_delete st ses form) = []"
    unfolding r by simp
qed

theorem room_delete_solo_creador_witness:
  "estado_final (room_delete estado_ej beto [''room_id'' \<mapsto> ''1'']) = estado_ej
   \<and> mensajes_usuario (room_delete estado_ej beto [''room_id'' \<mapsto> ''1'']) =
       [''Solo el creador puede borrar la sala.'']
   \<and> Salas (base (estado_final (room_delete estado_ej ana [''room_id'' \<mapsto> ''1'']))) = []
   \<and> user_id ana = Some 1"
proof -
  let ?sala = "\<lparr>id_sala = 1, codigo = ''000000'', nombre_sala = ''Test'', id_creador = 1,
                fecha_creacion = 0\<rparr>"
  have k: "distinct (map id_sala (Salas (base estado_ej)))"
    by (simp add: estado_ej_def db_ej_def)
  have b: "user_id beto = Some 2"
    by (simp add: beto_def)
  have i: "int_of_str (strip (form_get [''room_id'' \<mapsto> ''1''] ''room_id'' '''')) = Some 1"
    by code_simp
  have s: "?sala \<in> set (Salas (base estado_ej))" "id_sala ?sala = 1" "id_creador ?sala \<noteq> 2"
    by (simp_all add: estado_ej_def db_ej_def)
  have rb: "estado_final (room_delete estado_ej beto [''room_id'' \<mapsto> ''1'']) = estado_ej
      \<and> mensajes_usuario (room_delete estado_ej beto [''room_id'' \<mapsto> ''1'']) =
          [''Solo el creador puede borrar la sala.'']"
    using room_delete_solo_creador [OF k, of _ beto "[''room_id'' \<mapsto> ''1'']" 2 1 ?sala] b i s
    by blast
  have d: "isdigit (strip (form_get [''room_id'' \<mapsto> ''1''] ''room_id'' ''''))"
    using i by (rule int_of_str_isdigit)
  have borrada: "Salas (base (estado_final (room_delete estado_ej ana [''room_id'' \<mapsto> ''1'']))) = []"
    using i d by (simp add: room_delete_def requiere_login_def room_delete_fn_def Let_def
        ana_def estado_ej_def db_ej_def consultar_one_def borrar_sala_def)
  then have fuera: "?sala \<notin> set (Salas (base (estado_final (room_delete estado_ej ana [''room_id'' \<mapsto> ''1'']))))"
    by simp
  have ra: "user_id ana = Some 1"
    using room_delete_solo_creador [OF k, of ?sala ana "[''room_id'' \<mapsto> ''1'']"] s(1) fuera
    by simp
  show ?thesis
    using rb borrada ra by blast
qed

text \<open>
  C6, as stated, fails: when Ana deletes her room, the one event that is emitted is named
  \<open>actualizar_ui\<close>, not \<open>room_deleted\<close>, and its payload has the single field \<open>motivo\<close>
  and no field \<open>room_id\<close>.
\<close>

theorem room_delete_evento_counterexample:
  "Salas (base (estado_final (room_delete estado_ej ana [''room_id'' \<mapsto> ''1'']))) = []
   \<and> emitidos (room_delete estado_ej ana [''room_id'' \<mapsto> ''1'']) =
       [\<lparr>nombre = ''actualizar_ui'', datos = [(''motivo'', VStr ''sala_eliminada'')],
         destino = ''room_1''\<rparr>]
   \<and> ''actualizar_ui'' \<noteq> ''room_deleted''
   \<and> map_of [(''motivo'', VStr ''sala_eliminada'')] ''room_id'' = None"
proof -
  have i: "int_of_str (strip (form_get [''room_id'' \<mapsto> ''1''] ''room_id'' '''')) = Some 1"
    by code_simp
  have d: "isdigit (strip (form_get [''room_id'' \<mapsto> ''1''] ''room_id'' ''''))"
    using i by (rule int_of_str_isdigit)
  have n: "nombre_sala ''room'' 1 = ''room_1''"
    by code_simp
  have r: "room_delete estado_ej ana [''room_id'' \<mapsto> ''1''] =
      salir (estado_ej\<lparr>base := borrar_sala (base estado_ej) 1\<rparr>) [''Sala eliminada.'']
        [\<lparr>nombre = ''actualizar_ui'', datos = [(''motivo'', VStr ''sala_eliminada'')],
          destino = ''room_1''\<rparr>]
        (Redirect ''chat'')"
    using i d n by (simp add: room_delete_def requiere_login_def room_delete_fn_def Let_def
        ana_def estado_ej_def db_ej_def consultar_one_def)
  have s: "Salas (base (estado_final (room_delete estado_ej ana [''room_id'' \<mapsto> ''1'']))) = []"
    unfolding r by (simp add: borrar_sala_def estado_ej_def db_ej_def)
  have e: "emitidos (room_delete estado_ej ana [''room_id'' \<mapsto> ''1'']) =
       [\<lparr>nombre = ''actualizar_ui'', datos = [(''motivo'', VStr ''sala_eliminada'')],
         destino = ''room_1''\<rparr>]"
    unfolding r by simp
  show ?thesis
    using s e by simp
qed

text \<open>
  C6, amended. When the creator deletes an existing room, \<open>room_delete\<close> removes the room
  with its memberships and messages, flashes \<open>Sala eliminada.\<close> and emits exactly one
  event to the room's channel: it is named \<open>actualizar_ui\<close> and its payload is the single
  field \<open>motivo\<close> with the value \<open>sala_eliminada\<close>.
\<close>

theorem room_delete_evento:
  assumes "user_id ses = Some u"
    and "int_of_str (strip (form_get form ''room_id'' '''')) = Some rid"
    and "consultar_one (\<lambda>s. id_sala s = rid) (Salas (base st)) = Some sala"
    and "id_creador sala = u"
  shows
    "room_delete st ses form =
       salir (st\<lparr>base := borrar_sala (base st) rid\<rparr>) [''Sala eliminada.'']
         [\<lparr>nombre = ''actualizar_ui'', datos = [(''motivo'', VStr ''sala_eliminada'')],
           destino = nombre_sala ''room'' rid\<rparr>]
         (Redirect ''chat'')"
proof -
  have "isdigit (strip (form_get form ''room_id'' ''''))"
    using assms(2) by (rule int_of_str_isdigit)
  then show ?thesis
    using assms by (simp add: room_delete_def requiere_login_def room_delete_fn_def Let_def)
qed

theorem room_delete_evento_witness:
  "emitidos (room_delete estado_ej ana [''room_id'' \<mapsto> '' 1 '']) =
     [\<lparr>nombre = ''actualizar_ui'', datos = [(''motivo'', VStr ''sala_eliminada'')],
       destino = nombre_sala ''room'' 1\<rparr>]
   \<and> flashes (room_delete estado_ej ana [''room_id'' \<mapsto> '' 1 '']) = [''Sala eliminada.'']"
proof -
  let ?sala = "\<lparr>id_sala = 1, codigo = ''000000'', nombre_sala = ''Test'', id_creador = 1,
                fecha_creacion = 0\<rparr>"
  have a: "user_id ana = Some 1"
    by (simp add: ana_def)
  have i: "int_of_str (strip (form_get [''room_id'' \<mapsto> '' 1 ''] ''room_id'' '''')) = Some 1"
    by code_simp
  have s: "consultar_one (\<lambda>s. id_sala s = 1) (Salas (base estado_ej)) = Some ?sala"
    by (simp add: consultar_one_def estado_ej_def db_ej_def)
  have c: "id_creador ?sala = 1"
    by simp
  show ?thesis
    unfolding room_delete_evento [OF a i s c] by simp
qed

section \<open>Uploading a file\<close>



section \<open>The format of a join code\<close>




section \<open>Leaving a room\<close>

text \<open>
  C9. When a logged-in member leaves a room, \<open>room_leave\<close> changes the database only: the
  membership rows of this user in this room are deleted and one system notice, that the
  user left, is appended to the messages; the user is no member afterwards. The Socket.IO
  rooms are left as they are: every connection that was subscribed to the room's channel
  still is. The only event emitted is the \<open>room_notice\<close> to the room; nothing tells a
  connection to unsubscribe. A connection the user opens afterwards is handled by
  \<open>manejar_conexion\<close>: it joins the user's own channel and the rooms of the user's
  remaining memberships, which leave out the room that was left.
\<close>

theorem room_leave_solo_persistente:
  assumes u: "user_id ses = Some u"
    and rid: "int_of_str (strip (form_get form ''room_id'' '''')) = Some rid"
    and m: "usuario_en_sala (base st) u rid"
  shows
    "Miembros_Sala (base (estado_final (room_leave st ses reloj form))) =
       filter (\<lambda>m. \<not> es_miembro rid u m) (Miembros_Sala (base st))
     \<and> Mensajes_Sala (base (estado_final (room_leave st ses reloj form))) =
       Mensajes_Sala (base st) @
         [\<lparr>id_mensaje = auto_mensaje (base st), mensaje_id_sala = rid, id_emisor = None,
           contenido = session_username ses ''Anon'' @ '' salio de la sala.'',
           fecha_envio = reloj 0, es_sistema = True, tipo_archivo = None, archivo_datos = None\<rparr>]
     \<and> Salas (base (estado_final (room_leave st ses reloj form))) = Salas (base st)
     \<and> \<not> usuario_en_sala (base (estado_final (room_leave st ses reloj form))) u rid
     \<and> suscripciones (estado_final (room_leave st ses reloj form)) = suscripciones st
     \<and> emitidos (room_leave st ses reloj form) =
         [room_notice rid (session_username ses ''Anon'' @ '' salio de la sala.'') (reloj 0)]
     \<and> (u \<noteq> 0 \<longrightarrow>
          suscripciones (manejar_conexion (estado_final (room_leave st ses reloj form)) ses sid) =
            suscripciones st @
              (sid, nombre_sala_usuario u) #
              map (\<lambda>m. (sid, nombre_sala ''room'' (miembro_id_sala m)))
                (filter (\<lambda>m. miembro_id_usuario m = u \<and> miembro_id_sala m \<noteq> rid)
                   (Miembros_Sala (base st))))"
proof -
  have dig: "isdigit (strip (form_get form ''room_id'' ''''))"
    using rid by (rule int_of_str_isdigit)
  from m obtain fila where fila: "consultar_one (es_miembro rid u) (Miembros_Sala (base st)) = Some fila"
    by (auto simp: usuario_en_sala_def)
  have r: "room_leave st ses reloj form =
      salir (st\<lparr>base := insertar_aviso_sala (borrar_miembro (base st) rid u) rid
                          (session_username ses ''Anon'' @ '' salio de la sala.'') (reloj 0)\<rparr>)
        [''Saliste de la sala.'']
        [room_notice rid (session_username ses ''Anon'' @ '' salio de la sala.'') (reloj 0)]
        (Redirect ''chat'')"
    using u rid dig fila
    by (simp add: room_leave_def requiere_login_def room_leave_fn_def Let_def)
  have fuera: "\<not> usuario_en_sala (base (estado_final (room_leave st ses reloj form))) u rid"
    unfolding r
    by (simp add: usuario_en_sala_def consultar_one_None insertar_aviso_sala_def
        insertar_mensaje_def borrar_miembro_def)
  have resto: "filter (\<lambda>m. \<not> es_miembro rid u m \<and> miembro_id_usuario m = u) xs =
      filter (\<lambda>m. miembro_id_usuario m = u \<and> miembro_id_sala m \<noteq> rid) xs" for xs
    by (induction xs) (auto simp: es_miembro_def)
  have conexion: "u \<noteq> 0 \<longrightarrow>
          suscripciones (manejar_conexion (estado_final (room_leave st ses reloj form)) ses sid) =
            suscripciones st @
              (sid, nombre_sala_usuario u) #
              map (\<lambda>m. (sid, nombre_sala ''room'' (miembro_id_sala m)))
                (filter (\<lambda>m. miembro_id_usuario m = u \<and> miembro_id_sala m \<noteq> rid)
                   (Miembros_Sala (base st)))"
    unfolding r using u
    by (simp add: manejar_conexion_def Let_def insertar_aviso_sala_def insertar_mensaje_def
        borrar_miembro_def resto)
  have datos: "Miembros_Sala (base (estado_final (room_leave st ses reloj form))) =
       filter (\<lambda>m. \<not> es_miembro rid u m) (Miembros_Sala (base st))
     \<and> Mensajes_Sala (base (estado_final (room_leave st ses reloj form))) =
       Mensajes_Sala (base st) @
         [\<lparr>id_mensaje = auto_mensaje (base st), mensaje_id_sala = rid, id_emisor = None,
           contenido = session_username ses ''Anon'' @ '' salio de la sala.'',
           fecha_envio = reloj 0, es_sistema = True, tipo_archivo = None, archivo_datos = None\<rparr>]
     \<and> Salas (base (estado_final (room_leave st ses reloj form))) = Salas (base st)
     \<and> suscripciones (estado_final (room_leave st ses reloj form)) = suscripciones st
     \<and> emitidos (room_leave st ses reloj form) =
         [room_notice rid (session_username ses ''Anon'' @ '' salio de la sala.'') (reloj 0)]"
    unfolding r
    by (simp add: insertar_aviso_sala_def insertar_mensaje_def borrar_miembro_def)
  show ?thesis
    using datos fuera conexion by blast
qed

theorem room_leave_solo_persistente_witness:
  "usuario_en_sala (base estado_ej) 1 1
   \<and> Miembros_Sala (base (estado_final (room_leave estado_ej ana reloj_ej [''room_id'' \<mapsto> ''1'']))) = []
   \<and> suscripciones (estado_final (room_leave estado_ej ana reloj_ej [''room_id'' \<mapsto> ''1''])) =
       [(7, ''user_1''), (7, ''room_1'')]
   \<and> map nombre (emitidos (room_leave estado_ej ana reloj_ej [''room_id'' \<mapsto> ''1''])) = [''room_notice'']
   \<and> suscripciones (manejar_conexion
        (estado_final (room_leave estado_ej ana reloj_ej [''room_id'' \<mapsto> ''1''])) ana 8) =
       [(7, ''user_1''), (7, ''room_1''), (8, ''user_1'')]"
proof -
  let ?r = "room_leave estado_ej ana reloj_ej [''room_id'' \<mapsto> ''1'']"
  have a: "user_id ana = Some 1"
    by (simp add: ana_def)
  have i: "int_of_str (strip (form_get [''room_id'' \<mapsto> ''1''] ''room_id'' '''')) = Some 1"
    by code_simp
  have m: "usuario_en_sala (base estado_ej) 1 1"
    by code_simp
  have f: "filter (\<lambda>m. \<not> es_miembro 1 1 m) (Miembros_Sala (base estado_ej)) = []"
    by (simp add: es_miembro_def estado_ej_def db_ej_def)
  have g: "filter (\<lambda>m. miembro_id_usuario m = 1 \<and> miembro_id_sala m \<noteq> 1) (Miembros_Sala (base estado_ej)) = []"
    by (simp add: estado_ej_def db_ej_def)
  have s: "suscripciones estado_ej = [(7, ''user_1''), (7, ''room_1'')]"
    by (simp add: estado_ej_def)
  have n: "nombre_sala_usuario 1 = ''user_1''"
    by code_simp
  note t = room_leave_solo_persistente [OF a i m, of reloj_ej 8]
  have t1: "Miembros_Sala (base (estado_final ?r)) = []"
    using t f by simp
  have t2: "suscripciones (estado_final ?r) = [(7, ''user_1''), (7, ''room_1'')]"
    using t s by simp
  have t3: "map nombre (emitidos ?r) = [''room_notice'']"
    using t by (simp add: room_notice_def)
  have t4: "suscripciones (manejar_conexion (estado_final ?r) ana 8) =
       [(7, ''user_1''), (7, ''room_1''), (8, ''user_1'')]"
    using t g s n by simp
  show ?thesis
    using m t1 t2 t3 t4 by blast
qed

section \<open>Downloading a file\<close>

text \<open>
  C10. \<open>get_media\<close> needs no session and checks no membership: its outcome is the one it
  has for a session without user, and its response does not depend on the membership
  table. It changes nothing. It answers \<open>Not found\<close> with status 404 exactly when no
  message has the id or the message has no file data; in every other case it serves the
  stored data of the message with a MIME type.
\<close>

theorem get_media_sin_control:
  "get_media st ses id_m = get_media st anonimo id_m
   \<and> respuesta (get_media (st\<lparr>base := (base st)\<lparr>Miembros_Sala := ms\<rparr>\<rparr>) ses id_m) =
       respuesta (get_media st ses id_m)
   \<and> estado_final (get_media st ses id_m) = st
   \<and> (respuesta (get_media st ses id_m) = Texto ''Not found'' 404 \<longleftrightarrow> sin_datos (base st) id_m)
   \<and> (\<not> sin_datos (base st) id_m \<longrightarrow>
        (\<exists>m blob mime. consultar_one (\<lambda>m. id_mensaje m = id_m) (Mensajes_Sala (base st)) = Some m
           \<and> archivo_datos m = Some blob
           \<and> respuesta (get_media st ses id_m) = Archivo blob mime))"
proof (intro conjI)
  show "get_media st ses id_m = get_media st anonimo id_m"
    by (simp add: get_media_def)
  show "respuesta (get_media (st\<lparr>base := (base st)\<lparr>Miembros_Sala := ms\<rparr>\<rparr>) ses id_m) =
       respuesta (get_media st ses id_m)"
    by (simp add: get_media_def Let_def split: option.splits)
  show "estado_final (get_media st ses id_m) = st"
    by (simp add: get_media_def Let_def split: option.splits)
  show "respuesta (get_media st ses id_m) = Texto ''Not found'' 404 \<longleftrightarrow> sin_datos (base st) id_m"
    by (simp add: get_media_def sin_datos_def Let_def split: option.splits)
  show "\<not> sin_datos (base st) id_m \<longrightarrow>
        (\<exists>m blob mime. consultar_one (\<lambda>m. id_mensaje m = id_m) (Mensajes_Sala (base st)) = Some m
           \<and> archivo_datos m = Some blob
           \<and> respuesta (get_media st ses id_m) = Archivo blob mime)"
    by (auto simp: get_media_def sin_datos_def Let_def split: option.splits)
qed

theorem get_media_sin_control_witness:
  "\<not> sin_datos (base estado_media) 3
   \<and> respuesta (get_media estado_media anonimo 3) = Archivo [255, 216, 255] ''image/jpeg''
   \<and> \<not> usuario_en_sala (base estado_media) 2 1
   \<and> respuesta (get_media estado_media beto 3) = Archivo [255, 216, 255] ''image/jpeg''
   \<and> sin_datos (base estado_media) 2
   \<and> respuesta (get_media estado_media beto 2) = Texto ''Not found'' 404"
proof -
  have n3: "\<not> sin_datos (base estado_media) 3" and s2: "sin_datos (base estado_media) 2"
    by code_simp+
  have nb: "\<not> usuario_en_sala (base estado_media) 2 1"
    by code_simp
  have r3: "respuesta (get_media estado_media anonimo 3) = Archivo [255, 216, 255] ''image/jpeg''"
    by code_simp
  have b3: "get_media estado_media beto 3 = get_media estado_media anonimo 3"
    using get_media_sin_control [of estado_media beto 3] by blast
  have b2: "respuesta (get_media estado_media beto 2) = Texto ''Not found'' 404"
    using get_media_sin_control [of estado_media beto 2] s2 by blast
  have "\<exists>m blob mime. consultar_one (\<lambda>m. id_mensaje m = 3) (Mensajes_Sala (base estado_media)) = Some m
           \<and> archivo_datos m = Some blob
           \<and> respuesta (get_media estado_media beto 3) = Archivo blob mime"
    using get_media_sin_control [of estado_media beto 3] n3 by blast
  then show ?thesis
    using n3 r3 nb b3 s2 b2 by simp
qed

end
